theory Spec2Isabelle
  imports Main "HOL-Library.Word"
begin

unbundle bit_operations_syntax

section \<open>The SSH session core of \<open>src/session.c\<close>\<close>

text \<open>
  The file \<open>session.c\<close> drives libssh and the R runtime: it creates a native session,
  configures and connects it, negotiates client authentication and wraps the session in
  an external pointer with a finalizer. The embedding keeps the C functions and their
  names. Every call into libssh or into R is recorded, in order, in a trace; what a call
  returns is given by an environment that may depend on all earlier calls. An R error
  (\<open>Rf_error\<close>, \<open>Rf_errorcall\<close>: a non-local exit) is the \<open>Inl\<close> branch of the result,
  and the world reached when it was raised is kept, so that what was (not) released by
  then can be read off the trace.
\<close>

subsection \<open>Constants of libssh\<close>

text \<open>
  Modelled from the spec: \<open>myssh.h\<close> and the libssh header it includes are not under
  \<open>src/\<close>. The return codes the spec names (ok, success, denied, info, error) and the
  method bits (password, public key, keyboard-interactive) carry the values published in
  \<open>libssh.h\<close>. The theorems below only use that they are distinct.
\<close>

definition SSH_OK :: int where "SSH_OK = 0"
definition SSH_AUTH_SUCCESS :: int where "SSH_AUTH_SUCCESS = 0"
definition SSH_AUTH_DENIED :: int where "SSH_AUTH_DENIED = 1"
definition SSH_AUTH_PARTIAL :: int where "SSH_AUTH_PARTIAL = 2"
definition SSH_AUTH_INFO :: int where "SSH_AUTH_INFO = 3"
definition SSH_AUTH_ERROR :: int where "SSH_AUTH_ERROR = - 1"

definition SSH_AUTH_METHOD_PASSWORD :: int where "SSH_AUTH_METHOD_PASSWORD = 2"
definition SSH_AUTH_METHOD_PUBLICKEY :: int where "SSH_AUTH_METHOD_PUBLICKEY = 4"
definition SSH_AUTH_METHOD_INTERACTIVE :: int where "SSH_AUTH_METHOD_INTERACTIVE = 16"

subsection \<open>Values, calls and the world\<close>

type_synonym ssh_session = nat
type_synonym ssh_key = nat
type_synonym extptr = nat

text \<open>The R values (\<open>SEXP\<close>) the file inspects: character vectors, functions, and the rest.\<close>

datatype sexp =
    NILSXP
  | STRSXP "string list"
  | INTSXP "int list"
  | CLOSXP nat

datatype ssh_option = SSH_OPTIONS_HOST | SSH_OPTIONS_USER | SSH_OPTIONS_PORT

text \<open>The libssh functions called on a session, with the arguments that matter.\<close>

datatype libcall =
    Options_set ssh_option
  | Set_callbacks
  | Connect
  | Get_publickey
  | Get_publickey_hash
  | Is_server_known
  | Get_hexa
  | Get_error
  | Userauth_none
  | Userauth_list
  | Userauth_publickey ssh_key
  | Userauth_publickey_auto
  | Userauth_kbdint
  | Kbdint_getname
  | Kbdint_getinstruction
  | Kbdint_getnprompts
  | Kbdint_getprompt nat
  | Kbdint_setanswer nat "char list"
  | Userauth_password "char list"
  | Get_issue_banner
  | Disconnect
  | Free

datatype event =
    Ssh_new ssh_session
  | Ssh ssh_session libcall
  | Pki_import_privkey_file string
  | R_tryEval nat string
  | Rprintf string

datatype error =
    Error string
  | Libssh_failure string string
  | Out_of_range

text \<open>
  The environment: what libssh and the R evaluator answer. Each answer may depend on the
  trace of all calls made so far. \<open>passphrase_prompts\<close> lists the prompts for which
  libssh calls the registered authentication callback back while it runs the given call
  (key import, automatic public-key authentication); \<open>r_eval\<close> is \<open>None\<close> when
  evaluating the closure raises an R error.
\<close>

record env =
  rc_of :: "event list \<Rightarrow> event \<Rightarrow> int"
  str_of :: "event list \<Rightarrow> event \<Rightarrow> string"
  banner_of :: "event list \<Rightarrow> string option"
  passphrase_prompts :: "event list \<Rightarrow> event \<Rightarrow> string list"
  r_eval :: "event list \<Rightarrow> nat \<Rightarrow> string \<Rightarrow> sexp option"

text \<open>
  The world: the trace, the next fresh native session and external pointer, and the
  address each external pointer holds (\<open>None\<close> is \<open>NULL\<close>: the handle is dead).
\<close>

record world =
  trace :: "event list"
  next_ssh :: ssh_session
  next_ptr :: extptr
  extptr_addr :: "extptr \<Rightarrow> ssh_session option"

type_synonym 'a result = "error + 'a"
type_synonym 'a prog = "world \<Rightarrow> ('a result \<times> world) option"

text \<open>
  A program returns normally, raises an R error, or (the keyboard-interactive loop only)
  never returns: \<open>None\<close>.
\<close>

definition ret :: "'a \<Rightarrow> 'a prog" where
  "ret x w = Some (Inr x, w)"

definition throw :: "error \<Rightarrow> 'a prog" where
  "throw e w = Some (Inl e, w)"

definition bnd :: "'a prog \<Rightarrow> ('a \<Rightarrow> 'b prog) \<Rightarrow> 'b prog" where
  "bnd m f w =
     (case m w of
        None \<Rightarrow> None
      | Some (Inl e, w') \<Rightarrow> Some (Inl e, w')
      | Some (Inr x, w') \<Rightarrow> f x w')"

definition emit :: "event \<Rightarrow> unit prog" where
  "emit ev w = Some (Inr (), w\<lparr>trace := trace w @ [ev]\<rparr>)"

definition lib_int :: "env \<Rightarrow> ssh_session \<Rightarrow> libcall \<Rightarrow> int prog" where
  "lib_int env ssh c w =
     Some (Inr (rc_of env (trace w) (Ssh ssh c)), w\<lparr>trace := trace w @ [Ssh ssh c]\<rparr>)"

definition lib_str :: "env \<Rightarrow> ssh_session \<Rightarrow> libcall \<Rightarrow> string prog" where
  "lib_str env ssh c w =
     Some (Inr (str_of env (trace w) (Ssh ssh c)), w\<lparr>trace := trace w @ [Ssh ssh c]\<rparr>)"

definition lib_void :: "ssh_session \<Rightarrow> libcall \<Rightarrow> unit prog" where
  "lib_void ssh c = emit (Ssh ssh c)"

definition ssh_new :: "ssh_session prog" where
  "ssh_new w =
     Some (Inr (next_ssh w),
           w\<lparr>trace := trace w @ [Ssh_new (next_ssh w)], next_ssh := Suc (next_ssh w)\<rparr>)"

definition ssh_get_issue_banner :: "env \<Rightarrow> ssh_session \<Rightarrow> string option prog" where
  "ssh_get_issue_banner env ssh w =
     Some (Inr (banner_of env (trace w)), w\<lparr>trace := trace w @ [Ssh ssh Get_issue_banner]\<rparr>)"

definition R_tryEval_call :: "env \<Rightarrow> nat \<Rightarrow> string \<Rightarrow> sexp option prog" where
  "R_tryEval_call env f prompt w =
     Some (Inr (r_eval env (trace w) f prompt), w\<lparr>trace := trace w @ [R_tryEval f prompt]\<rparr>)"

subsection \<open>C strings and the R accessors\<close>

definition NUL :: char where "NUL = CHR 0x00"

text \<open>
  \<open>strncpy(buf, src, n)\<close> into an array of \<open>n\<close> bytes: the bytes of \<open>src\<close> up to its
  terminator, cut at \<open>n\<close>, padded with NUL up to \<open>n\<close>. When \<open>src\<close> has \<open>n\<close> bytes or more
  the array holds no terminator.
\<close>

definition strncpy :: "string \<Rightarrow> nat \<Rightarrow> char list" where
  "strncpy src n = take n (takeWhile (\<lambda>c. c \<noteq> NUL) src @ replicate n NUL)"

text \<open>
  The C string an array holds, read no further than the array: reading an array without
  terminator runs past its end in C; the model stops at the end of the array.
\<close>

definition c_str :: "char list \<Rightarrow> string" where
  "c_str buf = takeWhile (\<lambda>c. c \<noteq> NUL) buf"

definition strlen :: "char list \<Rightarrow> nat" where
  "strlen buf = length (c_str buf)"

fun Rf_isString :: "sexp \<Rightarrow> bool" where
  "Rf_isString (STRSXP xs) = True"
| "Rf_isString _ = False"

fun Rf_isFunction :: "sexp \<Rightarrow> bool" where
  "Rf_isFunction (CLOSXP f) = True"
| "Rf_isFunction _ = False"

fun Rf_length :: "sexp \<Rightarrow> nat" where
  "Rf_length NILSXP = 0"
| "Rf_length (STRSXP xs) = length xs"
| "Rf_length (INTSXP xs) = length xs"
| "Rf_length (CLOSXP f) = 1"

text \<open>
  \<open>STRING_ELT(x, i)\<close>; \<open>None\<close> where the C macro reads outside the vector (or a value
  that is no character vector).
\<close>

fun STRING_ELT :: "sexp \<Rightarrow> nat \<Rightarrow> string option" where
  "STRING_ELT (STRSXP xs) i = (if i < length xs then Some (xs ! i) else None)"
| "STRING_ELT _ i = None"

subsection \<open>Session handles: \<open>ssh_ptr_get\<close>, \<open>ssh_ptr_fin\<close>, \<open>ssh_ptr_create\<close>\<close>

definition R_ExternalPtrAddr :: "world \<Rightarrow> extptr \<Rightarrow> ssh_session option" where
  "R_ExternalPtrAddr w ptr = extptr_addr w ptr"

definition R_ClearExternalPtr :: "extptr \<Rightarrow> unit prog" where
  "R_ClearExternalPtr ptr w = Some (Inr (), w\<lparr>extptr_addr := (extptr_addr w)(ptr := None)\<rparr>)"

definition ssh_ptr_get :: "extptr \<Rightarrow> ssh_session prog" where
  "ssh_ptr_get ptr w =
     (case R_ExternalPtrAddr w ptr of
        None \<Rightarrow> throw (Error ''SSH session pointer is dead'') w
      | Some ssh \<Rightarrow> ret ssh w)"

definition ssh_ptr_fin :: "extptr \<Rightarrow> unit prog" where
  "ssh_ptr_fin ptr w =
     (case R_ExternalPtrAddr w ptr of
        None \<Rightarrow> ret () w
      | Some ssh \<Rightarrow>
          bnd (lib_void ssh Disconnect) (\<lambda>_.
          bnd (lib_void ssh Free) (\<lambda>_.
          R_ClearExternalPtr ptr)) w)"

text \<open>
  \<open>ssh_ptr_create\<close> makes a fresh external pointer holding the session and registers
  \<open>ssh_ptr_fin\<close> as its finalizer.
\<close>

definition ssh_ptr_create :: "ssh_session \<Rightarrow> extptr prog" where
  "ssh_ptr_create ssh w =
     Some (Inr (next_ptr w),
           w\<lparr>next_ptr := Suc (next_ptr w),
             extptr_addr := (extptr_addr w)(next_ptr w := Some ssh)\<rparr>)"

definition C_disconnect_session :: "extptr \<Rightarrow> sexp prog" where
  "C_disconnect_session ptr = bnd (ssh_ptr_fin ptr) (\<lambda>_. ret NILSXP)"

subsection \<open>\<open>bail_if\<close> and the credential callback\<close>

definition bail_if :: "env \<Rightarrow> int \<Rightarrow> string \<Rightarrow> ssh_session \<Rightarrow> unit prog" where
  "bail_if env rc what ssh =
     (if rc \<noteq> SSH_OK then
        bnd (lib_str env ssh Get_error) (\<lambda>msg.
        let buf = strncpy msg 1024 in
        bnd (lib_void ssh Disconnect) (\<lambda>_.
        bnd (lib_void ssh Free) (\<lambda>_.
        throw (Libssh_failure what (c_str buf)))))
      else ret ())"

text \<open>
  \<open>password_cb\<close> fills the caller's 1024-byte array and returns a length; the model
  returns both.
\<close>

definition password_cb :: "env \<Rightarrow> sexp \<Rightarrow> string \<Rightarrow> (nat \<times> char list) prog" where
  "password_cb env rpass prompt =
     (if Rf_isString rpass \<and> Rf_length rpass \<noteq> 0 then
        (case STRING_ELT rpass 0 of
           None \<Rightarrow> throw Out_of_range
         | Some s \<Rightarrow> ret (length s, strncpy s 1024))
      else if Rf_isFunction rpass then
        bnd (R_tryEval_call env (case rpass of CLOSXP f \<Rightarrow> f | _ \<Rightarrow> 0) prompt) (\<lambda>res.
        case res of
          None \<Rightarrow> throw (Error ''Password callback did not return a string value'')
        | Some v \<Rightarrow>
            if \<not> Rf_isString v
            then throw (Error ''Password callback did not return a string value'')
            else (case STRING_ELT v 0 of
                    None \<Rightarrow> throw Out_of_range
                  | Some s \<Rightarrow> (let buf = strncpy s 1024 in ret (strlen buf, buf))))
      else throw (Error ''unsupported password type''))"

definition my_auth_callback :: "env \<Rightarrow> sexp \<Rightarrow> string \<Rightarrow> int prog" where
  "my_auth_callback env rpass prompt =
     bnd (emit (Rprintf ''Calling my_auth_callback'')) (\<lambda>_.
     bnd (password_cb env rpass prompt) (\<lambda>_.
     ret SSH_OK))"

text \<open>
  A libssh call that may call the registered callback back (with \<open>rpass\<close> as user data)
  before it returns. The call enters the trace when it returns, after the events of its
  callbacks; a callback that raises an R error leaves the call unfinished.
\<close>

fun run_callbacks :: "env \<Rightarrow> sexp \<Rightarrow> string list \<Rightarrow> unit prog" where
  "run_callbacks env rpass [] = ret ()"
| "run_callbacks env rpass (p # ps) =
     bnd (my_auth_callback env rpass p) (\<lambda>_. run_callbacks env rpass ps)"

definition call_with_callbacks :: "env \<Rightarrow> sexp \<Rightarrow> event \<Rightarrow> int prog" where
  "call_with_callbacks env rpass ev w =
     bnd (run_callbacks env rpass (passphrase_prompts env (trace w) ev)) (\<lambda>_ w'.
       Some (Inr (rc_of env (trace w') ev), w'\<lparr>trace := trace w' @ [ev]\<rparr>)) w"

subsection \<open>Authentication: \<open>auth_password\<close>, \<open>auth_interactive\<close>, \<open>auth_any\<close>\<close>

definition auth_password :: "env \<Rightarrow> ssh_session \<Rightarrow> sexp \<Rightarrow> int prog" where
  "auth_password env ssh rpass =
     bnd (password_cb env rpass ''Please enter your password'') (\<lambda>(n, buf).
     bnd (lib_int env ssh (Userauth_password buf)) (\<lambda>rc.
     bnd (bail_if env (if rc = SSH_AUTH_ERROR then 1 else 0) ''password auth'' ssh) (\<lambda>_.
     ret rc)))"

text \<open>
  The \<open>for\<close> loop over the prompts of one round, from the given slots on. Its value is
  \<open>Some rc\<close> when the loop leaves \<open>auth_interactive\<close> by \<open>return rc\<close>, and \<open>None\<close> when
  it runs to its end.
\<close>

fun answer_prompts :: "env \<Rightarrow> ssh_session \<Rightarrow> sexp \<Rightarrow> nat list \<Rightarrow> int option prog" where
  "answer_prompts env ssh rpass [] = ret None"
| "answer_prompts env ssh rpass (iprompt # rest) =
     bnd (lib_str env ssh (Kbdint_getprompt iprompt)) (\<lambda>prompt.
     bnd (password_cb env rpass prompt) (\<lambda>(n, buf).
     bnd (lib_int env ssh (Kbdint_setanswer iprompt buf)) (\<lambda>rc.
     if rc < 0 then ret (Some SSH_AUTH_ERROR)
     else answer_prompts env ssh rpass rest)))"

text \<open>One pass through the body of the \<open>while\<close> loop, up to the end of the \<open>for\<close> loop.\<close>

definition kbdint_round :: "env \<Rightarrow> ssh_session \<Rightarrow> sexp \<Rightarrow> int option prog" where
  "kbdint_round env ssh rpass =
     bnd (lib_str env ssh Kbdint_getname) (\<lambda>name.
     bnd (lib_str env ssh Kbdint_getinstruction) (\<lambda>instruction.
     bnd (lib_int env ssh Kbdint_getnprompts) (\<lambda>nprompts.
     bnd (if strlen name > 0 then emit (Rprintf name) else ret ()) (\<lambda>_.
     bnd (if strlen instruction > 0 then emit (Rprintf instruction) else ret ()) (\<lambda>_.
     answer_prompts env ssh rpass [0..<nat nprompts])))))"

text \<open>The \<open>while (rc == SSH_AUTH_INFO)\<close> loop; it need not end.\<close>

partial_function (option) kbdint_loop ::
    "env \<Rightarrow> ssh_session \<Rightarrow> sexp \<Rightarrow> int \<Rightarrow> world \<Rightarrow> (int result \<times> world) option" where
  "kbdint_loop env ssh rpass rc w =
     (if rc = SSH_AUTH_INFO then
        (case kbdint_round env ssh rpass w of
           None \<Rightarrow> None
         | Some (Inl e, w1) \<Rightarrow> Some (Inl e, w1)
         | Some (Inr (Some r), w1) \<Rightarrow> Some (Inr r, w1)
         | Some (Inr None, w1) \<Rightarrow>
             (case lib_int env ssh Userauth_kbdint w1 of
                None \<Rightarrow> None
              | Some (Inl e, w2) \<Rightarrow> Some (Inl e, w2)
              | Some (Inr rc', w2) \<Rightarrow> kbdint_loop env ssh rpass rc' w2))
      else Some (Inr rc, w))"

definition auth_interactive :: "env \<Rightarrow> ssh_session \<Rightarrow> sexp \<Rightarrow> int prog" where
  "auth_interactive env ssh rpass =
     bnd (lib_int env ssh Userauth_kbdint) (\<lambda>rc. kbdint_loop env ssh rpass rc)"

text \<open>
  \<open>auth_any\<close>. Each block yields \<open>True\<close> where the C code leaves the function by
  \<open>return\<close>.
\<close>

definition auth_any :: "env \<Rightarrow> ssh_session \<Rightarrow> ssh_key option \<Rightarrow> sexp \<Rightarrow> unit prog" where
  "auth_any env ssh privkey rpass =
     bnd (lib_int env ssh Userauth_none) (\<lambda>rc0.
     if rc0 = SSH_AUTH_SUCCESS then ret () else
     bnd (lib_int env ssh Userauth_list) (\<lambda>method.
     bnd (if method AND SSH_AUTH_METHOD_PUBLICKEY \<noteq> 0 then
            (case privkey of
               Some k \<Rightarrow>
                 bnd (lib_int env ssh (Userauth_publickey k)) (\<lambda>rc. ret (rc = SSH_AUTH_SUCCESS))
             | None \<Rightarrow>
                 bnd (call_with_callbacks env rpass (Ssh ssh Userauth_publickey_auto))
                   (\<lambda>rc. ret (rc = SSH_AUTH_SUCCESS)))
          else ret False) (\<lambda>done.
     if done then ret () else
     bnd (if method AND SSH_AUTH_METHOD_INTERACTIVE \<noteq> 0 then
            bnd (auth_interactive env ssh rpass) (\<lambda>rc. ret (rc = SSH_AUTH_SUCCESS))
          else ret False) (\<lambda>done.
     if done then ret () else
     bnd (if method AND SSH_AUTH_METHOD_PASSWORD \<noteq> 0 then
            bnd (auth_password env ssh rpass) (\<lambda>rc. ret (rc = SSH_AUTH_SUCCESS))
          else ret False) (\<lambda>done.
     if done then ret () else
     throw (Error ''Authentication failed, permission denied''))))))"

subsection \<open>\<open>C_start_session\<close>\<close>

definition C_start_session ::
    "env \<Rightarrow> string \<Rightarrow> int \<Rightarrow> string \<Rightarrow> string list \<Rightarrow> sexp \<Rightarrow> extptr prog" where
  "C_start_session env host port user keyfile rpass =
     bnd (if length keyfile \<noteq> 0 then
            bnd (call_with_callbacks env rpass (Pki_import_privkey_file (hd keyfile))) (\<lambda>rc.
            if rc \<noteq> SSH_OK then throw (Error (''Failed to read private key: '' @ hd keyfile))
            else ret (Some (0::ssh_key)))
          else ret None) (\<lambda>privkey.
     bnd ssh_new (\<lambda>ssh.
     bnd (lib_int env ssh (Options_set SSH_OPTIONS_HOST)) (\<lambda>rc.
     bnd (bail_if env rc ''set host'' ssh) (\<lambda>_.
     bnd (lib_int env ssh (Options_set SSH_OPTIONS_USER)) (\<lambda>rc.
     bnd (bail_if env rc ''set user'' ssh) (\<lambda>_.
     bnd (lib_int env ssh (Options_set SSH_OPTIONS_PORT)) (\<lambda>rc.
     bnd (bail_if env rc ''set port'' ssh) (\<lambda>_.
     bnd (lib_void ssh Set_callbacks) (\<lambda>_.
     bnd (lib_int env ssh Connect) (\<lambda>rc.
     bnd (bail_if env rc ''connect'' ssh) (\<lambda>_.
     bnd (lib_int env ssh Get_publickey) (\<lambda>_.
     bnd (lib_int env ssh Get_publickey_hash) (\<lambda>_.
     bnd (lib_int env ssh Is_server_known) (\<lambda>known.
     bnd (if known = 0 then
            bnd (lib_str env ssh Get_hexa) (\<lambda>hexa.
            emit (Rprintf (''Unknown server fingerprint: '' @ hexa)))
          else ret ()) (\<lambda>_.
     bnd (auth_any env ssh privkey rpass) (\<lambda>_.
     bnd (ssh_get_issue_banner env ssh) (\<lambda>banner.
     bnd (case banner of Some b \<Rightarrow> emit (Rprintf b) | None \<Rightarrow> ret ()) (\<lambda>_.
     ssh_ptr_create ssh))))))))))))))))))"

subsection \<open>Describing traces\<close>



































text \<open>
  The runs of the \<open>while\<close> loop as a relation: from return code \<open>rc\<close> and world \<open>w\<close>
  the loop ends with result \<open>r\<close> in world \<open>w'\<close>.
\<close>

inductive kbd_run :: "env \<Rightarrow> ssh_session \<Rightarrow> sexp \<Rightarrow> int \<Rightarrow> world \<Rightarrow> int result \<Rightarrow> world \<Rightarrow> bool"
  for env ssh rpass where
    Done: "rc \<noteq> SSH_AUTH_INFO \<Longrightarrow> kbd_run env ssh rpass rc w (Inr rc) w"
  | Raised: "kbdint_round env ssh rpass w = Some (Inl e, w1) \<Longrightarrow>
             kbd_run env ssh rpass SSH_AUTH_INFO w (Inl e) w1"
  | Aborted: "kbdint_round env ssh rpass w = Some (Inr (Some rc), w1) \<Longrightarrow>
              kbd_run env ssh rpass SSH_AUTH_INFO w (Inr rc) w1"
  | Again: "kbdint_round env ssh rpass w = Some (Inr None, w1) \<Longrightarrow>
            kbd_run env ssh rpass (rc_of env (trace w1) (Ssh ssh Userauth_kbdint))
              (w1\<lparr>trace := trace w1 @ [Ssh ssh Userauth_kbdint]\<rparr>) r w' \<Longrightarrow>
            kbd_run env ssh rpass SSH_AUTH_INFO w r w'"

subsection \<open>Concrete worlds and environments\<close>

definition world0 :: world where
  "world0 = \<lparr>trace = [], next_ssh = 0, next_ptr = 0, extptr_addr = (\<lambda>_. None)\<rparr>"

definition world_live :: world where
  "world_live =
     \<lparr>trace = [], next_ssh = 1, next_ptr = 1, extptr_addr = (\<lambda>_. None)(0 := Some 0)\<rparr>"

definition env_accept :: env where
  "env_accept =
     \<lparr>rc_of = (\<lambda>h ev. 0), str_of = (\<lambda>h ev. []), banner_of = (\<lambda>h. None),
      passphrase_prompts = (\<lambda>h ev. []), r_eval = (\<lambda>h f p. None)\<rparr>"

definition long_secret :: string where
  "long_secret = replicate 1025 (CHR ''a'')"






definition env_denied :: env where
  "env_denied =
     \<lparr>rc_of = (\<lambda>h ev. case ev of
                  Ssh s Userauth_none \<Rightarrow> SSH_AUTH_DENIED
                | Ssh s Is_server_known \<Rightarrow> 1
                | _ \<Rightarrow> 0),
      str_of = (\<lambda>h ev. []), banner_of = (\<lambda>h. None), passphrase_prompts = (\<lambda>h ev. []),
      r_eval = (\<lambda>h f p. None)\<rparr>"


section \<open>Basic facts\<close>


lemma bnd_emit: "bnd (emit ev) f w = f () (w\<lparr>trace := trace w @ [ev]\<rparr>)"
  by (simp add: bnd_def emit_def)

lemma bnd_lib_void: "bnd (lib_void ssh c) f w = f () (w\<lparr>trace := trace w @ [Ssh ssh c]\<rparr>)"
  by (simp add: lib_void_def bnd_emit)




lemmas run_simps =
  bnd_def ret_def throw_def emit_def lib_int_def lib_str_def lib_void_def ssh_new_def
  ssh_get_issue_banner_def R_tryEval_call_def

lemma ssh_ptr_fin_dead:
  "R_ExternalPtrAddr w ptr = None \<Longrightarrow> ssh_ptr_fin ptr w = Some (Inr (), w)"
  by (simp add: ssh_ptr_fin_def ret_def)

lemma ssh_ptr_fin_live:
  "R_ExternalPtrAddr w ptr = Some ssh \<Longrightarrow>
   ssh_ptr_fin ptr w =
     Some (Inr (), w\<lparr>trace := trace w @ [Ssh ssh Disconnect, Ssh ssh Free],
                      extptr_addr := (extptr_addr w)(ptr := None)\<rparr>)"
  by (simp add: ssh_ptr_fin_def bnd_lib_void R_ClearExternalPtr_def)

lemma length_strncpy: "length (strncpy s n) = n"
  by (simp add: strncpy_def)

lemma takeWhile_no_NUL: "NUL \<notin> set s \<Longrightarrow> takeWhile (\<lambda>c. c \<noteq> NUL) s = s"
  by (induction s) auto

lemma strncpy_long: "NUL \<notin> set s \<Longrightarrow> n \<le> length s \<Longrightarrow> strncpy s n = take n s"
  by (simp add: strncpy_def takeWhile_no_NUL)

lemma c_str_strncpy_long:
  "NUL \<notin> set s \<Longrightarrow> n \<le> length s \<Longrightarrow> c_str (strncpy s n) = take n s"
  by (auto simp: strncpy_long c_str_def intro!: takeWhile_no_NUL dest: in_set_takeD)

lemma c_str_strncpy_short:
  assumes "NUL \<notin> set s" "length s < n"
  shows "c_str (strncpy s n) = s"
proof -
  have "strncpy s n = s @ replicate (n - length s) NUL"
    using assms by (simp add: strncpy_def takeWhile_no_NUL)
  moreover have "n - length s > 0" using assms by simp
  then obtain k where "n - length s = Suc k" by (cases "n - length s") auto
  ultimately show ?thesis
    using assms by (simp add: c_str_def takeWhile_tail takeWhile_no_NUL)
qed

lemma long_secret_facts: "NUL \<notin> set long_secret" "length long_secret = 1025"
  by (simp_all add: long_secret_def NUL_def)

lemma password_cb_literal:
  "password_cb env (STRSXP (s # ss)) prompt w = Some (Inr (length s, strncpy s 1024), w)"
  by (simp add: password_cb_def ret_def)






subsection \<open>Marked events in a trace\<close>









subsection \<open>The keyboard-interactive sub-protocol\<close>



lemma kbd_run_loop:
  "kbd_run env ssh rpass rc w r w' \<Longrightarrow> kbdint_loop env ssh rpass rc w = Some (r, w')"
proof (induction rule: kbd_run.induct)
  case (Done rc w)
  then show ?case by (subst kbdint_loop.simps) simp
next
  case (Raised w e w1)
  then show ?case by (subst kbdint_loop.simps) simp
next
  case (Aborted w rc w1)
  then show ?case by (subst kbdint_loop.simps) simp
next
  case (Again w w1 r w')
  then show ?case by (subst kbdint_loop.simps) (simp add: lib_int_def)
qed












subsection \<open>Callbacks and the blocks of \<open>auth_any\<close>\<close>






subsection \<open>The blocks of \<open>auth_any\<close>\<close>



















subsection \<open>The phases of \<open>C_start_session\<close>\<close>


















section \<open>The claims\<close>

text \<open>
  C1. The claim: every failure of connect after the native session exists tears the
  session down exactly once before the error is raised. The code does so where it goes
  through \<open>bail_if\<close> (lemma \<open>C_start_session_trace\<close>, lemma \<open>auth_password_run\<close>), but
  not on the last line of \<open>auth_any\<close>: when the "none" attempt is denied and the server
  advertises none of the three methods, \<open>C_start_session\<close> raises "Authentication failed,
  permission denied" with the session neither disconnected nor freed, and no external
  pointer (hence no finalizer) owning it.
\<close>

theorem auth_failure_leaks_session:
  "C_start_session env_denied ''example.org'' 22 ''alice'' [] (STRSXP [''secret123'']) world0 =
     Some (Inl (Error ''Authentication failed, permission denied''),
       \<lparr>trace = [Ssh_new 0, Ssh 0 (Options_set SSH_OPTIONS_HOST),
          Ssh 0 (Options_set SSH_OPTIONS_USER), Ssh 0 (Options_set SSH_OPTIONS_PORT),
          Ssh 0 Set_callbacks, Ssh 0 Connect, Ssh 0 Get_publickey, Ssh 0 Get_publickey_hash,
          Ssh 0 Is_server_known, Ssh 0 Userauth_none, Ssh 0 Userauth_list],
        next_ssh = 1, next_ptr = 0, extptr_addr = (\<lambda>_. None)\<rparr>) \<and>
   count_list [Ssh_new 0, Ssh 0 (Options_set SSH_OPTIONS_HOST),
          Ssh 0 (Options_set SSH_OPTIONS_USER), Ssh 0 (Options_set SSH_OPTIONS_PORT),
          Ssh 0 Set_callbacks, Ssh 0 Connect, Ssh 0 Get_publickey, Ssh 0 Get_publickey_hash,
          Ssh 0 Is_server_known, Ssh 0 Userauth_none, Ssh 0 Userauth_list] (Ssh 0 Disconnect) = 0 \<and>
   count_list [Ssh_new 0, Ssh 0 (Options_set SSH_OPTIONS_HOST),
          Ssh 0 (Options_set SSH_OPTIONS_USER), Ssh 0 (Options_set SSH_OPTIONS_PORT),
          Ssh 0 Set_callbacks, Ssh 0 Connect, Ssh 0 Get_publickey, Ssh 0 Get_publickey_hash,
          Ssh 0 Is_server_known, Ssh 0 Userauth_none, Ssh 0 Userauth_list] (Ssh 0 Free) = 0"
  by (simp add: C_start_session_def auth_any_def bail_if_def run_simps ssh_ptr_create_def
      env_denied_def world0_def SSH_AUTH_SUCCESS_def SSH_AUTH_DENIED_def SSH_OK_def
      SSH_AUTH_METHOD_PUBLICKEY_def SSH_AUTH_METHOD_INTERACTIVE_def
      SSH_AUTH_METHOD_PASSWORD_def)







text \<open>
  C4 (as amended). For every character-vector credential whose first element is shorter
  than 1024 bytes (and, as every R string, holds no NUL byte) and every prompt,
  \<open>password_cb\<close> returns normally, touches nothing, and the C string left in the buffer is
  exactly that element, whatever the prompt.
\<close>

theorem literal_secret_short:
  assumes "NUL \<notin> set s" and "length s < 1024"
  shows "\<exists>buf. password_cb env (STRSXP (s # ss)) prompt w = Some (Inr (length s, buf), w) \<and>
           length buf = 1024 \<and> c_str buf = s"
  using assms by (simp add: password_cb_literal length_strncpy c_str_strncpy_short)

theorem literal_secret_short_witness:
  "NUL \<notin> set ''secret123'' \<and> length ''secret123'' < 1024 \<and>
   (\<exists>buf. password_cb env_accept (STRSXP [''secret123'']) ''Password: '' world0 =
            Some (Inr (length ''secret123'', buf), world0) \<and>
      length buf = 1024 \<and> c_str buf = ''secret123'')"
  using literal_secret_short [of "''secret123''" env_accept "[]" "''Password: ''" world0]
  by (simp add: NUL_def)

text \<open>
  C4 as stated fails: of a literal secret of 1025 bytes the 1024-byte buffer holds a proper
  prefix only.
\<close>

theorem literal_secret_truncated:
  "password_cb env_accept (STRSXP [long_secret]) ''Password: '' world0 =
     Some (Inr (1025, strncpy long_secret 1024), world0) \<and>
   length (c_str (strncpy long_secret 1024)) = 1024 \<and>
   c_str (strncpy long_secret 1024) \<noteq> long_secret"
proof -
  have "length (c_str (strncpy long_secret 1024)) = 1024"
    using long_secret_facts by (simp add: c_str_strncpy_long)
  moreover from this have "c_str (strncpy long_secret 1024) \<noteq> long_secret"
    using long_secret_facts(2) by auto
  ultimately show ?thesis
    by (simp add: password_cb_literal long_secret_facts(2))
qed








text \<open>
  C8. \<open>disconnect\<close> is idempotent: on a dead handle \<open>C_disconnect_session\<close> does nothing
  and raises no error; on a live handle it disconnects, frees the native session and marks
  the handle dead; calling it twice has the effect of calling it once.
\<close>

theorem disconnect_idempotent:
  "(R_ExternalPtrAddr w ptr = None \<longrightarrow> C_disconnect_session ptr w = Some (Inr NILSXP, w)) \<and>
   (\<forall>ssh. R_ExternalPtrAddr w ptr = Some ssh \<longrightarrow>
      C_disconnect_session ptr w =
        Some (Inr NILSXP, w\<lparr>trace := trace w @ [Ssh ssh Disconnect, Ssh ssh Free],
                              extptr_addr := (extptr_addr w)(ptr := None)\<rparr>)) \<and>
   bnd (C_disconnect_session ptr) (\<lambda>_. C_disconnect_session ptr) w = C_disconnect_session ptr w"
proof (cases "R_ExternalPtrAddr w ptr")
  case None
  then show ?thesis
    by (simp add: C_disconnect_session_def bnd_def ssh_ptr_fin_dead ret_def)
next
  case (Some ssh)
  let ?w' = "w\<lparr>trace := trace w @ [Ssh ssh Disconnect, Ssh ssh Free],
                extptr_addr := (extptr_addr w)(ptr := None)\<rparr>"
  have dead: "R_ExternalPtrAddr ?w' ptr = None"
    by (simp add: R_ExternalPtrAddr_def)
  have once: "C_disconnect_session ptr w = Some (Inr NILSXP, ?w')"
    using Some by (simp add: C_disconnect_session_def bnd_def ssh_ptr_fin_live ret_def)
  have again: "C_disconnect_session ptr ?w' = Some (Inr NILSXP, ?w')"
    using dead by (simp add: C_disconnect_session_def bnd_def ssh_ptr_fin_dead ret_def)
  show ?thesis
    using Some once again by (simp add: bnd_def)
qed

theorem disconnect_idempotent_witness:
  "R_ExternalPtrAddr world_live 0 = Some 0 \<and>
   C_disconnect_session 0 world_live =
     Some (Inr NILSXP, \<lparr>trace = [Ssh 0 Disconnect, Ssh 0 Free], next_ssh = 1, next_ptr = 1,
                         extptr_addr = (\<lambda>_. None)\<rparr>) \<and>
   R_ExternalPtrAddr world0 0 = None \<and>
   C_disconnect_session 0 world0 = Some (Inr NILSXP, world0)"
  using disconnect_idempotent [of world_live 0] disconnect_idempotent [of world0 0]
  by (simp add: world_live_def world0_def R_ExternalPtrAddr_def fun_eq_iff)

text \<open>
  C9. On a dead handle (the external pointer's address is \<open>NULL\<close>) \<open>ssh_ptr_get\<close> raises
  "SSH session pointer is dead" and makes no native call, so every operation that first
  fetches the session with it raises that error with the world untouched; \<open>ssh_ptr_fin\<close>
  makes no native call on a dead handle either.
\<close>

theorem dead_handle_raises:
  assumes "R_ExternalPtrAddr w ptr = None"
  shows "ssh_ptr_get ptr w = Some (Inl (Error ''SSH session pointer is dead''), w) \<and>
         bnd (ssh_ptr_get ptr) f w = Some (Inl (Error ''SSH session pointer is dead''), w) \<and>
         ssh_ptr_fin ptr w = Some (Inr (), w)"
  using assms by (simp add: ssh_ptr_get_def throw_def bnd_def ssh_ptr_fin_dead)

theorem dead_handle_raises_witness:
  "R_ExternalPtrAddr world0 0 = None \<and>
   ssh_ptr_get 0 world0 = Some (Inl (Error ''SSH session pointer is dead''), world0) \<and>
   bnd (ssh_ptr_get 0) (\<lambda>ssh. lib_int env_accept ssh Userauth_none) world0 =
     Some (Inl (Error ''SSH session pointer is dead''), world0) \<and>
   ssh_ptr_fin 0 world0 = Some (Inr (), world0)"
  using dead_handle_raises [of world0 0 "\<lambda>ssh. lib_int env_accept ssh Userauth_none"]
  by (simp add: world0_def R_ExternalPtrAddr_def)



end
